theory Spec2Isabelle
  imports Main
begin

section \<open>FireSim topology passes (deploy/runtools/firesim\_topology\_with\_passes.py)\<close>

text \<open>
  The class \<open>FireSimTopologyWithPasses\<close> runs a series of passes over a topology of
  switch and server nodes and over the host instances of a run farm. The Python objects
  are mutated in place; here every pass takes the objects it reads and returns the
  updated ones. An exception is a value \<open>Inl e\<close> of a sum type.
\<close>

subsection \<open>Exceptions\<close>

datatype error =
    AssertionError string
  | IndexError
  | TypeError
  | UnboundLocalError
  | SystemExit
  | NetworkError

subsection \<open>Topology nodes\<close>

text \<open>
  The three node classes the passes test with \<open>isinstance\<close>; they are declared in
  \<open>runtools/firesim_topology_elements.py\<close>.
\<close>

datatype node_class = FireSimSwitchNode | FireSimServerNode | FireSimDummyServerNode


fun isinstance_server :: "node_class \<Rightarrow> bool" where
  "isinstance_server FireSimSwitchNode = False"
| "isinstance_server FireSimServerNode = True"
| "isinstance_server FireSimDummyServerNode = True"

fun isinstance_dummy :: "node_class \<Rightarrow> bool" where
  "isinstance_dummy FireSimSwitchNode = False"
| "isinstance_dummy FireSimServerNode = False"
| "isinstance_dummy FireSimDummyServerNode = True"

text \<open>
  A node object. Objects are referred to by their identity, a natural number; the object
  store \<open>nat \<Rightarrow> node\<close> gives the object behind each reference. \<open>downlinks\<close> lists
  the nodes on the downlink side of the node's links (\<open>x.get_downlink_side()\<close> for each
  link \<open>x\<close> of \<open>node.downlinks\<close>), in port order.
\<close>

record node =
  cls :: node_class
  downlinks :: "nat list"
  mac_address :: "nat option"
  downlinkmacs :: "nat list"
  switch_table :: "nat list"

type_synonym store = "nat \<Rightarrow> node"

text \<open>
  The state of a \<open>FireSimTopologyWithPasses\<close> object that the compilation passes use:
  the list \<open>passes_used\<close>, the node objects of \<open>firesimtopol\<close>, and the class-level
  counter of \<open>MacAddress\<close>, which \<open>MacAddress.next_mac_to_allocate()\<close> reads.
\<close>

record topology_with_passes =
  passes_used :: "string list"
  nodes :: store
  next_mac_alloc :: nat

subsection \<open>pass\_assign\_mac\_addresses\<close>

text \<open>
  Modelled from the spec: the address allocator \<open>MacAddress\<close> of \<open>runtools/utils.py\<close>
  ("issues a monotonically increasing integer address per request, starting from a reset
  point", "contiguous from zero"). \<open>nodes_dfs_order\<close> is the result of
  \<open>firesimtopol.get_dfs_order()\<close>.
\<close>

fun assign_macs :: "store \<Rightarrow> nat \<Rightarrow> nat list \<Rightarrow> store \<times> nat" where
  "assign_macs ns nxt [] = (ns, nxt)"
| "assign_macs ns nxt (n # rest) =
     (if isinstance_server (cls (ns n))
      then assign_macs (ns(n := (ns n)\<lparr>mac_address := Some nxt\<rparr>)) (Suc nxt) rest
      else assign_macs ns nxt rest)"

definition pass_assign_mac_addresses :: "nat list \<Rightarrow> topology_with_passes \<Rightarrow> topology_with_passes" where
  "pass_assign_mac_addresses nodes_dfs_order st =
     (let used = passes_used st @ [''pass_assign_mac_addresses''];
          (ns, nxt) = assign_macs (nodes st) 0 nodes_dfs_order
      in st\<lparr>passes_used := used, nodes := ns, next_mac_alloc := nxt\<rparr>)"

subsection \<open>pass\_compute\_switching\_tables\<close>

text \<open>
  Modelled from the spec: \<open>get_mac_address\<close> of a server node gives its allocated
  address; a machine that holds none has nothing to give.
\<close>

definition get_mac_address :: "node \<Rightarrow> error + nat" where
  "get_mac_address nd = (case mac_address nd of None \<Rightarrow> Inl (AssertionError []) | Some m \<Rightarrow> Inr m)"

text \<open>\<open>reduce(lambda x, y: x + y, xss)\<close>: a \<open>TypeError\<close> on the empty sequence.\<close>

definition reduce_concat :: "'a list list \<Rightarrow> error + 'a list" where
  "reduce_concat xss = (case xss of [] \<Rightarrow> Inl TypeError | xs # rest \<Rightarrow> Inr (foldl (@) xs rest))"

text \<open>The first loop: \<open>downlinkmacs\<close> of every node, in the order of \<open>get_dfs_order()\<close>.\<close>

fun compute_downlinkmacs :: "store \<Rightarrow> nat list \<Rightarrow> error + store" where
  "compute_downlinkmacs ns [] = Inr ns"
| "compute_downlinkmacs ns (n # rest) =
     (if isinstance_server (cls (ns n)) then
        (case get_mac_address (ns n) of
           Inl e \<Rightarrow> Inl e
         | Inr m \<Rightarrow> compute_downlinkmacs (ns(n := (ns n)\<lparr>downlinkmacs := [m]\<rparr>)) rest)
      else
        (let childdownlinkmacs = map (\<lambda>x. downlinkmacs (ns x)) (downlinks (ns n)) in
         case reduce_concat childdownlinkmacs of
           Inl e \<Rightarrow> Inl e
         | Inr flat \<Rightarrow> compute_downlinkmacs (ns(n := (ns n)\<lparr>downlinkmacs := flat\<rparr>)) rest))"

text \<open>
  \<open>for mac in portmacs: switchtab[mac.as_int_no_prefix()] = port_no\<close>. An address is
  the natural number \<open>as_int_no_prefix\<close> gives; a store past the end of the Python
  list raises \<open>IndexError\<close>.
\<close>

fun set_port :: "nat list \<Rightarrow> nat \<Rightarrow> nat list \<Rightarrow> error + nat list" where
  "set_port switchtab port_no [] = Inr switchtab"
| "set_port switchtab port_no (m # portmacs) =
     (if m < length switchtab then set_port (switchtab[m := port_no]) port_no portmacs
      else Inl IndexError)"

text \<open>
  \<open>for port_no in range(len(switch.downlinks))\<close>: the downlinks still to visit, with
  the port number of the first of them.
\<close>

fun fill_ports :: "store \<Rightarrow> nat list \<Rightarrow> nat \<Rightarrow> nat list \<Rightarrow> error + nat list" where
  "fill_ports ns switchtab port_no [] = Inr switchtab"
| "fill_ports ns switchtab port_no (d # ds) =
     (case set_port switchtab port_no (downlinkmacs (ns d)) of
        Inl e \<Rightarrow> Inl e
      | Inr switchtab' \<Rightarrow> fill_ports ns switchtab' (Suc port_no) ds)"

definition build_switch_table :: "store \<Rightarrow> nat \<Rightarrow> nat \<Rightarrow> error + nat list" where
  "build_switch_table ns next_mac switch =
     (let uplinkportno = length (downlinks (ns switch));
          switchtab = replicate next_mac uplinkportno
      in fill_ports ns switchtab 0 (downlinks (ns switch)))"

text \<open>The second loop: the table of every switch of \<open>get_dfs_order_switches()\<close>.\<close>

fun compute_switch_tables :: "store \<Rightarrow> nat \<Rightarrow> nat list \<Rightarrow> error + store" where
  "compute_switch_tables ns next_mac [] = Inr ns"
| "compute_switch_tables ns next_mac (switch # rest) =
     (case build_switch_table ns next_mac switch of
        Inl e \<Rightarrow> Inl e
      | Inr switchtab \<Rightarrow>
          compute_switch_tables (ns(switch := (ns switch)\<lparr>switch_table := switchtab\<rparr>)) next_mac rest)"

definition pass_compute_switching_tables ::
  "nat list \<Rightarrow> nat list \<Rightarrow> topology_with_passes \<Rightarrow> error + topology_with_passes" where
  "pass_compute_switching_tables nodes_dfs_order switches_dfs_order st =
     (if ''pass_assign_mac_addresses'' \<notin> set (passes_used st) then Inl (AssertionError [])
      else
        (let used = passes_used st @ [''pass_compute_switching_tables''] in
         case compute_downlinkmacs (nodes st) nodes_dfs_order of
           Inl e \<Rightarrow> Inl e
         | Inr ns1 \<Rightarrow>
             (case compute_switch_tables ns1 (next_mac_alloc st) switches_dfs_order of
                Inl e \<Rightarrow> Inl e
              | Inr ns2 \<Rightarrow> Inr (st\<lparr>passes_used := used, nodes := ns2\<rparr>))))"

text \<open>
  An example: the switch 0 with the servers 1 and 2 below it, and a switch 3 beside it
  with the server 4; children come before their parent in the traversal order.
\<close>

definition example_nodes :: store where
  "example_nodes =
     (\<lambda>n. \<lparr>cls = FireSimServerNode, downlinks = [], mac_address = None,
             downlinkmacs = [], switch_table = []\<rparr>)
     (0 := \<lparr>cls = FireSimSwitchNode, downlinks = [1, 2], mac_address = None,
             downlinkmacs = [], switch_table = []\<rparr>,
      3 := \<lparr>cls = FireSimSwitchNode, downlinks = [4], mac_address = None,
             downlinkmacs = [], switch_table = []\<rparr>)"

definition example_state :: topology_with_passes where
  "example_state = \<lparr>passes_used = [], nodes = example_nodes, next_mac_alloc = 0\<rparr>"

subsection \<open>Run farm hosts\<close>

text \<open>
  Modelled from the spec: a host instance of the run farm (\<open>Inst\<close>, \<open>FPGAInst\<close> of
  \<open>runtools/run_farm_instances.py\<close>), "a capacity (maximum accelerator slots, 0 for
  switch-only hosts), current assigned switches, current assigned machines".
  \<open>host_id\<close> is the identity of the Python object; \<open>add_switch\<close> and
  \<open>add_simulation\<close> put a node on the host's lists. Neither looks at a capacity: by
  the spec the single-host mapping "does not cap assignments against host capacity".
\<close>

record host =
  host_id :: nat
  is_fpga_node :: bool
  num_fpga_slots_max :: nat
  switch_slots :: "nat list"
  fpga_slots :: "nat list"

definition add_switch :: "host \<Rightarrow> nat \<Rightarrow> host" where
  "add_switch h switch = h\<lparr>switch_slots := switch_slots h @ [switch]\<rparr>"

definition add_simulation :: "host \<Rightarrow> nat \<Rightarrow> host" where
  "add_simulation h server = h\<lparr>fpga_slots := fpga_slots h @ [server]\<rparr>"


subsection \<open>pass\_no\_net\_host\_mapping\<close>






text \<open>
  What first-fit packing gives: each host in turn takes as many of the machines that
  are left as it has slots.
\<close>

fun pack :: "host list \<Rightarrow> nat list \<Rightarrow> host list" where
  "pack [] servers = []"
| "pack (h # hs) servers =
     h\<lparr>fpga_slots := fpga_slots h @ take (num_fpga_slots_max h) servers\<rparr>
       # pack hs (drop (num_fpga_slots_max h) servers)"






subsection \<open>pass\_simple\_networked\_host\_node\_mapping\<close>

text \<open>
  \<open>alldownlinknodes\<close>: the downlink sides of the switch that are no
  \<open>FireSimDummyServerNode\<close>.
\<close>

definition alldownlinknodes :: "store \<Rightarrow> nat \<Rightarrow> nat list" where
  "alldownlinknodes ns switch =
     filter (\<lambda>x. \<not> isinstance_dummy (cls (ns x))) (downlinks (ns switch))"


text \<open>
  \<open>for server in downlinknodes: assert isinstance(server, FireSimServerNode);
  node.add_simulation(server)\<close>
\<close>

fun add_servers :: "store \<Rightarrow> host \<Rightarrow> nat list \<Rightarrow> error + host" where
  "add_servers ns node [] = Inr node"
| "add_servers ns node (server # rest) =
     (if isinstance_server (cls (ns server)) then add_servers ns (add_simulation node server) rest
      else Inl (AssertionError []))"












subsection \<open>mapping\_use\_one\_fpga\_node\<close>

text \<open>
  \<open>map(f, xs)\<close> is an iterator in Python 3: it gives each of its items once. The model
  of an iterator is the list of the items it has yet to give. A list comprehension or a
  \<open>for\<close> loop over it takes all of these and leaves the iterator with none.
\<close>

definition drain :: "'a list \<Rightarrow> 'a list \<times> 'a list" where
  "drain it = (it, [])"

text \<open>
  The body of \<open>for switch in switches\<close>. The state is the list \<open>fpga_nodes\<close> and the
  local variable \<open>downlinknodes\<close>, which is unbound (\<open>None\<close>) until the first branch
  has assigned it; there it is bound to the iterator \<open>alldownlinknodes\<close> itself
  (\<open>cast\<close> returns its argument), which the test \<open>all([... for x in alldownlinknodes])\<close>
  has drained before. \<open>fpga_nodes_used\<close> is 0 in every iteration: the function
  increments it after the loop.
\<close>

definition one_fpga_switch ::
  "store \<Rightarrow> host list \<times> nat list option \<Rightarrow> nat \<Rightarrow> error + host list \<times> nat list option" where
  "one_fpga_switch ns state switch =
     (let fpga_nodes = fst state; downlinknodes = snd state; fpga_nodes_used = 0 in
      if fpga_nodes_used < length fpga_nodes then
        (let fpga_nodes1 =
               fpga_nodes[fpga_nodes_used := add_switch (fpga_nodes ! fpga_nodes_used) switch];
             alldownlinknodes = downlinks (ns switch);
             (tested, alldownlinknodes') = drain alldownlinknodes
         in if list_all (\<lambda>x. isinstance_server (cls (ns x))) tested then
              (let (servers, downlinknodes') = drain alldownlinknodes' in
               case add_servers ns (fpga_nodes1 ! fpga_nodes_used) servers of
                 Inl e \<Rightarrow> Inl e
               | Inr node' \<Rightarrow> Inr (fpga_nodes1[fpga_nodes_used := node'], Some downlinknodes'))
            else
              (case downlinknodes of
                 None \<Rightarrow> Inl UnboundLocalError
               | Some it \<Rightarrow>
                   (let (tested', it') = drain it in
                    if list_ex (\<lambda>x. isinstance_server (cls (ns x))) tested'
                    then Inl (AssertionError ''MIXED DOWNLINKS NOT SUPPORTED.'')
                    else Inr (fpga_nodes1, Some it'))))
      else Inl IndexError)"

fun one_fpga_loop ::
  "store \<Rightarrow> nat list \<Rightarrow> host list \<times> nat list option \<Rightarrow> error + host list \<times> nat list option" where
  "one_fpga_loop ns [] state = Inr state"
| "one_fpga_loop ns (switch # rest) state =
     (case one_fpga_switch ns state switch of
        Inl e \<Rightarrow> Inl e
      | Inr state' \<Rightarrow> one_fpga_loop ns rest state')"

text \<open>The pass returns the accelerator hosts, in the order of the run farm.\<close>

definition mapping_use_one_fpga_node :: "store \<Rightarrow> nat list \<Rightarrow> host list \<Rightarrow> error + host list" where
  "mapping_use_one_fpga_node ns switches run_farm_nodes =
     (let fpga_nodes = filter is_fpga_node run_farm_nodes in
      case one_fpga_loop ns switches (fpga_nodes, None) of
        Inl e \<Rightarrow> Inl e
      | Inr (fpga_nodes', downlinknodes) \<Rightarrow> Inr fpga_nodes')"

subsection \<open>The fleet dispatcher\<close>

text \<open>
  The functions that the manager runs on the hosts of the run farm through fabric's
  \<open>execute\<close>. \<open>kill_simulation_wrapper\<close> carries \<open>disconnect_all_nbds\<close>,
  \<open>monitor_jobs_wrapper\<close> the \<open>teardown\<close> flag.
\<close>

datatype task =
    instance_liveness
  | infrasetup_node_wrapper
  | boot_switch_wrapper
  | boot_simulation_wrapper
  | kill_switch_wrapper
  | kill_simulation_wrapper bool
  | screens
  | monitor_jobs_wrapper bool

text \<open>
  What the manager does to the world, in the order it does it: \<open>Bind\<close> is the binding
  of the run farm's hosts to instances (\<open>post_launch_binding\<close>, mock or real);
  \<open>BuildDrivers\<close> and \<open>BuildSwitches\<close> are \<open>pass_build_required_drivers\<close> and
  \<open>pass_build_required_switches\<close>, which build on the manager; \<open>Execute\<close> is a
  dispatch to hosts, \<open>Local\<close> a command on the manager, \<open>Info\<close> and \<open>Debug\<close> a line
  of the log.
\<close>

datatype event =
    Bind bool
  | BuildDrivers
  | BuildSwitches
  | Execute task "string list"
  | Local string
  | Sleep nat
  | Info string
  | Debug string

text \<open>
  What a host reports to \<open>monitor_jobs_wrapper\<close>: under \<open>'switches'\<close> for each of its
  switches and under \<open>'sims'\<close> for each of its simulations (by the name of the job)
  whether it has completed. A Python \<open>dict\<close> is an association list.
\<close>

record instance_state =
  switches_of :: "(string \<times> bool) list"
  sims_of :: "(string \<times> bool) list"

text \<open>
  The world outside the manager: which hosts can be reached; what the hosts answer to
  the \<open>n\<close>-th status query of the monitor loop; what \<open>screen -ls\<close> prints on a host
  when asked for the \<open>n\<close>-th time; the exit status of a command run on the manager
  itself; and fabric's setting \<open>env.warn_only\<close>, as the caller of the manager left it.
\<close>

record world =
  reachable :: "string \<Rightarrow> bool"
  status_reply :: "nat \<Rightarrow> (string \<times> instance_state) list"
  screen_ls :: "string \<Rightarrow> nat \<Rightarrow> string"
  return_code :: "string \<Rightarrow> int"
  warn_only :: bool

text \<open>
  A procedure of the manager takes the events so far and gives the events after it,
  with the exception that ended it, if one did.
\<close>

type_synonym outcome = "event list \<times> error option"

text \<open>
  Modelled from the spec: fabric's \<open>execute\<close> on a task decorated \<open>@parallel\<close>
  "executes a named remote operation against a set of host addresses in parallel and
  returns a mapping from host to that operation's result (or propagates the first
  failure, aborting the batch)". The operation fails on a host that cannot be reached.
  The event \<open>Execute t hosts\<close> is the dispatch of the task \<open>t\<close> to the hosts: its
  work is done on those of them that can be reached.
\<close>

definition execute :: "world \<Rightarrow> task \<Rightarrow> string list \<Rightarrow> event list \<Rightarrow> outcome" where
  "execute w t hosts tr =
     (tr @ [Execute t hosts], if list_all (reachable w) hosts then None else Some NetworkError)"


subsection \<open>infrasetup\_passes, boot\_simulation\_passes\<close>

text \<open>\<open>all_runfarm_ips\<close> is \<open>[x.get_ip() for x in self.run_farm.get_all_host_nodes()]\<close>.\<close>

definition infrasetup_passes :: "world \<Rightarrow> bool \<Rightarrow> string list \<Rightarrow> event list \<Rightarrow> outcome" where
  "infrasetup_passes w use_mock_instances_for_testing all_runfarm_ips tr =
     (let tr1 = tr @ [Bind use_mock_instances_for_testing, BuildDrivers, BuildSwitches];
          r1 = execute w instance_liveness all_runfarm_ips tr1
      in if snd r1 \<noteq> None then r1
         else execute w infrasetup_node_wrapper all_runfarm_ips (fst r1))"

definition boot_simulation_passes ::
  "world \<Rightarrow> bool \<Rightarrow> bool \<Rightarrow> string list \<Rightarrow> event list \<Rightarrow> outcome" where
  "boot_simulation_passes w use_mock_instances_for_testing skip_instance_binding all_runfarm_ips tr =
     (let tr1 = (if \<not> skip_instance_binding then tr @ [Bind use_mock_instances_for_testing] else tr);
          r1 = execute w instance_liveness all_runfarm_ips tr1
      in if snd r1 \<noteq> None then r1
         else
           (let r2 = execute w boot_switch_wrapper all_runfarm_ips (fst r1) in
            if snd r2 \<noteq> None then r2
            else execute w boot_simulation_wrapper all_runfarm_ips (fst r2)))"

subsection \<open>kill\_simulation\_passes\<close>

text \<open>Python's \<open>sub in s\<close> on strings.\<close>

fun starts_with :: "string \<Rightarrow> string \<Rightarrow> bool" where
  "starts_with [] s = True"
| "starts_with (c # sub) [] = False"
| "starts_with (c # sub) (d # s) = (c = d \<and> starts_with sub s)"

fun str_in :: "string \<Rightarrow> string \<Rightarrow> bool" where
  "str_in sub [] = (sub = [])"
| "str_in sub (d # s) = (starts_with sub (d # s) \<or> str_in sub s)"

definition no_screens_left :: "string \<Rightarrow> bool" where
  "no_screens_left screenoutput =
     (if str_in ''2 Sockets in'' screenoutput \<and> str_in ''hw_server'' screenoutput
           \<and> str_in ''virtual_jtag'' screenoutput then True
      else if str_in ''No Sockets found'' screenoutput then True
      else False)"

text \<open>
  The function \<open>screens\<close> on one host: \<open>while True\<close>, ask \<open>screen -ls\<close> until it reports
  no screens left, sleeping a second in between. The result is the number of times it
  has asked; the loop may run for ever, and then there is no result.
\<close>

partial_function (option) screens_poll :: "(nat \<Rightarrow> string) \<Rightarrow> nat \<Rightarrow> nat option" where
  "screens_poll out n =
     (if no_screens_left (out n) then Some (Suc n) else screens_poll out (Suc n))"

text \<open>\<open>execute(screens, hosts=all_runfarm_ips)\<close> returns when \<open>screens\<close> has on every host.\<close>

definition execute_screens :: "world \<Rightarrow> string list \<Rightarrow> event list \<Rightarrow> outcome option" where
  "execute_screens w hosts tr =
     (let r = execute w screens hosts tr in
      if snd r \<noteq> None then Some r
      else if list_all (\<lambda>h. screens_poll (screen_ls w h) 0 \<noteq> None) hosts then Some r
      else None)"

definition kill_simulation_passes ::
  "world \<Rightarrow> bool \<Rightarrow> bool \<Rightarrow> string list \<Rightarrow> event list \<Rightarrow> outcome option" where
  "kill_simulation_passes w use_mock_instances_for_testing disconnect_all_nbds all_runfarm_ips tr =
     (let tr1 = tr @ [Bind use_mock_instances_for_testing];
          r1 = execute w kill_switch_wrapper all_runfarm_ips tr1
      in if snd r1 \<noteq> None then Some r1
         else
           (let r2 = execute w (kill_simulation_wrapper disconnect_all_nbds) all_runfarm_ips (fst r1) in
            if snd r2 \<noteq> None then Some r2
            else execute_screens w all_runfarm_ips (fst r2)))"

subsection \<open>run\_workload\_passes\<close>

text \<open>
  \<open>jobs_complete_dict.update(x)\<close>: an entry of \<open>x\<close> replaces the entry of the same key,
  or comes after the entries there are.
\<close>

fun dict_set :: "('k \<times> 'v) list \<Rightarrow> 'k \<Rightarrow> 'v \<Rightarrow> ('k \<times> 'v) list" where
  "dict_set [] k v = [(k, v)]"
| "dict_set ((k', v') # d) k v = (if k' = k then (k, v) # d else (k', v') # dict_set d k v)"

definition dict_update :: "('k \<times> 'v) list \<Rightarrow> ('k \<times> 'v) list \<Rightarrow> ('k \<times> 'v) list" where
  "dict_update d x = foldl (\<lambda>d kv. dict_set d (fst kv) (snd kv)) d x"

text \<open>
  \<open>simstates = [x['sims'] for x in instancestates.values()]\<close>, merged into
  \<open>jobs_complete_dict\<close>; \<open>global_status\<close> is its values.
\<close>

definition global_status :: "(string \<times> instance_state) list \<Rightarrow> bool list" where
  "global_status instancestates =
     (let simstates = map (\<lambda>x. sims_of (snd x)) instancestates;
          jobs_complete_dict = foldl dict_update [] simstates
      in map snd jobs_complete_dict)"










declare screens_poll.simps [code]







text \<open>
  The worlds of the examples: two hosts A and B, with one simulation each; the one on A
  is reported complete from the third status query on, the one on B from the fifth.
  \<open>screen -ls\<close> finds no screens from the second time on.
\<close>

definition example_reply :: "nat \<Rightarrow> (string \<times> instance_state) list" where
  "example_reply n =
     [(''A'', \<lparr>switches_of = [(''switch0'', False)], sims_of = [(''job0'', 2 \<le> n)]\<rparr>),
      (''B'', \<lparr>switches_of = [], sims_of = [(''job1'', 4 \<le> n)]\<rparr>)]"

definition example_world :: world where
  "example_world =
     \<lparr>reachable = (\<lambda>h. True),
      status_reply = example_reply,
      screen_ls = (\<lambda>h n. if n = 0 then ''There is a screen on:'' else ''No Sockets found in /run/screen''),
      return_code = (\<lambda>c. 0),
      warn_only = False\<rparr>"

text \<open>The same fleet with the host B out of reach.\<close>

definition example_world_B_down :: world where
  "example_world_B_down = example_world\<lparr>reachable := (\<lambda>h. h \<noteq> ''B'')\<rparr>"




section \<open>Properties of the switching-table pass\<close>

lemma set_port_length:
  "set_port tab p ms = Inr tab' \<Longrightarrow> length tab' = length tab"
  by (induction ms arbitrary: tab) (auto split: if_splits)

lemma set_port_other:
  "set_port tab p ms = Inr tab' \<Longrightarrow> a \<notin> set ms \<Longrightarrow> tab' ! a = tab ! a"
  by (induction ms arbitrary: tab) (auto split: if_splits)

lemma fill_ports_length:
  "fill_ports ns tab p ds = Inr tab' \<Longrightarrow> length tab' = length tab"
proof (induction ds arbitrary: tab p)
  case Nil
  then show ?case by simp
next
  case (Cons d ds)
  then show ?case
    by (auto split: sum.splits dest: set_port_length)
qed

lemma fill_ports_other:
  "fill_ports ns tab p ds = Inr tab' \<Longrightarrow> \<forall>d \<in> set ds. a \<notin> set (downlinkmacs (ns d))
     \<Longrightarrow> tab' ! a = tab ! a"
proof (induction ds arbitrary: tab p)
  case Nil
  then show ?case by simp
next
  case (Cons d ds)
  then show ?case
    by (auto split: sum.splits dest: set_port_other)
qed

lemma build_switch_table_length:
  "build_switch_table ns n sw = Inr tab \<Longrightarrow> length tab = n"
  by (auto simp: build_switch_table_def Let_def dest: fill_ports_length)

lemma build_switch_table_default:
  assumes "build_switch_table ns n sw = Inr tab" "a < n"
      and "\<forall>d \<in> set (downlinks (ns sw)). a \<notin> set (downlinkmacs (ns d))"
  shows "tab ! a = length (downlinks (ns sw))"
  using assms by (auto simp: build_switch_table_def Let_def dest: fill_ports_other)

text \<open>The table loop leaves links and downlink addresses as they are.\<close>

lemma fill_ports_cong:
  "\<forall>d \<in> set ds. downlinkmacs (ns d) = downlinkmacs (ns' d)
     \<Longrightarrow> fill_ports ns tab p ds = fill_ports ns' tab p ds"
  by (induction ds arbitrary: tab p) (auto split: sum.splits)

lemma build_switch_table_cong:
  assumes "\<forall>x. downlinks (ns x) = downlinks (ns' x)"
      and "\<forall>x. downlinkmacs (ns x) = downlinkmacs (ns' x)"
  shows "build_switch_table ns n sw = build_switch_table ns' n sw"
  using assms by (simp add: build_switch_table_def Let_def fill_ports_cong)

lemma compute_switch_tables_frame:
  "compute_switch_tables ns n sws = Inr ns' \<Longrightarrow>
     (\<forall>x. downlinks (ns' x) = downlinks (ns x)) \<and>
     (\<forall>x. downlinkmacs (ns' x) = downlinkmacs (ns x))"
  by (induction sws arbitrary: ns) (auto split: sum.splits)

lemma compute_switch_tables_untouched:
  "compute_switch_tables ns n sws = Inr ns' \<Longrightarrow> sw \<notin> set sws \<Longrightarrow> ns' sw = ns sw"
  by (induction sws arbitrary: ns) (auto split: sum.splits)

lemma compute_switch_tables_table:
  "compute_switch_tables ns n sws = Inr ns' \<Longrightarrow> sw \<in> set sws \<Longrightarrow>
     build_switch_table ns n sw = Inr (switch_table (ns' sw))"
proof (induction sws arbitrary: ns)
  case Nil
  then show ?case by simp
next
  case (Cons s rest)
  from Cons.prems(1) obtain tab where
    tab: "build_switch_table ns n s = Inr tab" and
    rest: "compute_switch_tables (ns(s := (ns s)\<lparr>switch_table := tab\<rparr>)) n rest = Inr ns'"
    by (auto split: sum.splits)
  let ?ns1 = "ns(s := (ns s)\<lparr>switch_table := tab\<rparr>)"
  have same: "build_switch_table ?ns1 n sw = build_switch_table ns n sw"
    by (rule build_switch_table_cong) auto
  show ?case
  proof (cases "sw \<in> set rest")
    case True
    from Cons.IH [OF rest True] have "build_switch_table ?ns1 n sw = Inr (switch_table (ns' sw))" .
    with same show ?thesis by simp
  next
    case False
    with Cons.prems(2) have eq: "sw = s" by simp
    from compute_switch_tables_untouched [OF rest] False eq
    have "ns' s = ?ns1 s" by simp
    with tab eq show ?thesis by simp
  qed
qed

text \<open>
  The pass runs to its end when the address-assignment pass has been used, every server
  of the traversal order holds an address below the allocator's next one, every other
  node of the order has a downlink, and the downlink addresses that the nodes hold
  before the pass (none, in a new topology) are below the allocator's next address.
\<close>

lemma foldl_append_set: "set (foldl (@) xs xss) = set xs \<union> (\<Union>ys \<in> set xss. set ys)"
  by (induction xss arbitrary: xs) auto

lemma compute_downlinkmacs_succeeds:
  assumes "\<forall>n \<in> set dfs. if isinstance_server (cls (ns n))
                           then \<exists>m. mac_address (ns n) = Some m \<and> m < N
                           else downlinks (ns n) \<noteq> []"
      and "\<forall>x. \<forall>m \<in> set (downlinkmacs (ns x)). m < N"
  shows "\<exists>ns1. compute_downlinkmacs ns dfs = Inr ns1 \<and>
               (\<forall>x. \<forall>m \<in> set (downlinkmacs (ns1 x)). m < N)"
  using assms
proof (induction dfs arbitrary: ns)
  case Nil
  then show ?case by simp
next
  case (Cons n rest)
  show ?case
  proof (cases "isinstance_server (cls (ns n))")
    case True
    with Cons.prems(1) obtain m where m: "mac_address (ns n) = Some m" "m < N" by auto
    let ?ns = "ns(n := (ns n)\<lparr>downlinkmacs := [m]\<rparr>)"
    have 1: "\<forall>k \<in> set rest. if isinstance_server (cls (?ns k))
                           then \<exists>m. mac_address (?ns k) = Some m \<and> m < N
                           else downlinks (?ns k) \<noteq> []"
      using Cons.prems(1) by auto
    have 2: "\<forall>x. \<forall>m \<in> set (downlinkmacs (?ns x)). m < N"
      using Cons.prems(2) m by auto
    from Cons.IH [OF 1 2] obtain ns1 where
      "compute_downlinkmacs ?ns rest = Inr ns1" "\<forall>x. \<forall>m \<in> set (downlinkmacs (ns1 x)). m < N"
      by blast
    moreover have "compute_downlinkmacs ns (n # rest) = compute_downlinkmacs ?ns rest"
      using True m by (simp add: get_mac_address_def)
    ultimately show ?thesis by metis
  next
    case False
    with Cons.prems(1) have ne: "downlinks (ns n) \<noteq> []" by auto
    then obtain d ds where dl: "downlinks (ns n) = d # ds" by (cases "downlinks (ns n)") auto
    let ?flat = "foldl (@) (downlinkmacs (ns d)) (map (\<lambda>x. downlinkmacs (ns x)) ds)"
    let ?ns = "ns(n := (ns n)\<lparr>downlinkmacs := ?flat\<rparr>)"
    have flat: "\<forall>m \<in> set ?flat. m < N"
      using Cons.prems(2) by (auto simp: foldl_append_set)
    have 1: "\<forall>k \<in> set rest. if isinstance_server (cls (?ns k))
                           then \<exists>m. mac_address (?ns k) = Some m \<and> m < N
                           else downlinks (?ns k) \<noteq> []"
      using Cons.prems(1) by auto
    have 2: "\<forall>x. \<forall>m \<in> set (downlinkmacs (?ns x)). m < N"
      using Cons.prems(2) flat by auto
    from Cons.IH [OF 1 2] obtain ns1 where
      "compute_downlinkmacs ?ns rest = Inr ns1" "\<forall>x. \<forall>m \<in> set (downlinkmacs (ns1 x)). m < N"
      by blast
    moreover have "compute_downlinkmacs ns (n # rest) = compute_downlinkmacs ?ns rest"
      using False dl by (simp add: reduce_concat_def)
    ultimately show ?thesis by metis
  qed
qed

lemma set_port_succeeds:
  "\<forall>m \<in> set ms. m < length tab \<Longrightarrow> \<exists>tab'. set_port tab p ms = Inr tab'"
  by (induction ms arbitrary: tab) auto

lemma fill_ports_succeeds:
  "\<forall>d \<in> set ds. \<forall>m \<in> set (downlinkmacs (ns d)). m < length tab \<Longrightarrow>
     \<exists>tab'. fill_ports ns tab p ds = Inr tab'"
proof (induction ds arbitrary: tab p)
  case Nil
  then show ?case by simp
next
  case (Cons d ds)
  from Cons.prems have "\<forall>m \<in> set (downlinkmacs (ns d)). m < length tab" by simp
  from set_port_succeeds [OF this, of p] obtain tab1 where
    t: "set_port tab p (downlinkmacs (ns d)) = Inr tab1" by auto
  from set_port_length [OF t] Cons.prems
  have "\<forall>d \<in> set ds. \<forall>m \<in> set (downlinkmacs (ns d)). m < length tab1" by simp
  from Cons.IH [OF this, of "Suc p"] t show ?case by simp
qed

lemma compute_switch_tables_succeeds:
  "\<forall>x. \<forall>m \<in> set (downlinkmacs (ns x)). m < N \<Longrightarrow>
     \<exists>ns2. compute_switch_tables ns N sws = Inr ns2"
proof (induction sws arbitrary: ns)
  case Nil
  then show ?case by simp
next
  case (Cons sw rest)
  have "\<forall>d \<in> set (downlinks (ns sw)). \<forall>m \<in> set (downlinkmacs (ns d)).
          m < length (replicate N (length (downlinks (ns sw))))"
    using Cons.prems by simp
  from fill_ports_succeeds [OF this, of 0] obtain tab where
    t: "build_switch_table ns N sw = Inr tab"
    by (auto simp: build_switch_table_def Let_def)
  have "\<forall>x. \<forall>m \<in> set (downlinkmacs ((ns(sw := (ns sw)\<lparr>switch_table := tab\<rparr>)) x)). m < N"
    using Cons.prems by simp
  from Cons.IH [OF this] obtain ns2 where
    "compute_switch_tables (ns(sw := (ns sw)\<lparr>switch_table := tab\<rparr>)) N rest = Inr ns2"
    by blast
  moreover have "compute_switch_tables ns N (sw # rest)
      = compute_switch_tables (ns(sw := (ns sw)\<lparr>switch_table := tab\<rparr>)) N rest"
    using t by simp
  ultimately show ?case by metis
qed

lemma pass_compute_switching_tables_succeeds:
  assumes "''pass_assign_mac_addresses'' \<in> set (passes_used st)"
      and "\<forall>n \<in> set nodes_dfs_order.
             if isinstance_server (cls (nodes st n))
             then \<exists>m. mac_address (nodes st n) = Some m \<and> m < next_mac_alloc st
             else downlinks (nodes st n) \<noteq> []"
      and "\<forall>x. \<forall>m \<in> set (downlinkmacs (nodes st x)). m < next_mac_alloc st"
  shows "\<exists>st'. pass_compute_switching_tables nodes_dfs_order switches_dfs_order st = Inr st'"
proof -
  from compute_downlinkmacs_succeeds [OF assms(2,3)] obtain ns1 where
    1: "compute_downlinkmacs (nodes st) nodes_dfs_order = Inr ns1" and
    i: "\<forall>x. \<forall>m \<in> set (downlinkmacs (ns1 x)). m < next_mac_alloc st"
    by auto
  from compute_switch_tables_succeeds [OF i, of switches_dfs_order] obtain ns2 where
    2: "compute_switch_tables ns1 (next_mac_alloc st) switches_dfs_order = Inr ns2" by auto
  from assms(1) 1 2 show ?thesis
    by (simp add: pass_compute_switching_tables_def)
qed

text \<open>
  Claim C6. After the switching-table pass has run, the forwarding table of every switch
  of the switch order has as many entries as the address allocator has issued (its
  next-to-issue value), however many addresses lie below the switch; and every entry
  whose address is in the downlink addresses of none of the switch's downlinks holds the
  uplink port number, which is the number of downlinks of the switch.
\<close>

theorem switch_table_size_and_default_uplink:
  assumes "pass_compute_switching_tables nodes_dfs_order switches_dfs_order st = Inr st'"
      and "switch \<in> set switches_dfs_order"
  shows "length (switch_table (nodes st' switch)) = next_mac_alloc st \<and>
         (\<forall>a < next_mac_alloc st.
            (\<forall>x \<in> set (downlinks (nodes st' switch)). a \<notin> set (downlinkmacs (nodes st' x)))
            \<longrightarrow> switch_table (nodes st' switch) ! a = length (downlinks (nodes st' switch)))"
proof -
  from assms(1) obtain ns1 ns2 where
    ns1: "compute_downlinkmacs (nodes st) nodes_dfs_order = Inr ns1" and
    ns2: "compute_switch_tables ns1 (next_mac_alloc st) switches_dfs_order = Inr ns2" and
    st': "nodes st' = ns2"
    by (auto simp: pass_compute_switching_tables_def Let_def split: if_splits sum.splits)
  from compute_switch_tables_table [OF ns2 assms(2)]
  have tab: "build_switch_table ns1 (next_mac_alloc st) switch = Inr (switch_table (ns2 switch))" .
  from compute_switch_tables_frame [OF ns2]
  have frame: "\<forall>x. downlinks (ns2 x) = downlinks (ns1 x)"
    "\<forall>x. downlinkmacs (ns2 x) = downlinkmacs (ns1 x)"
    by simp_all
  have len: "length (switch_table (ns2 switch)) = next_mac_alloc st"
    using tab by (rule build_switch_table_length)
  have dflt: "switch_table (ns2 switch) ! a = length (downlinks (ns2 switch))"
    if "a < next_mac_alloc st"
      "\<forall>x \<in> set (downlinks (ns2 switch)). a \<notin> set (downlinkmacs (ns2 x))" for a
    using build_switch_table_default [OF tab that(1)] that(2) frame by simp
  show ?thesis using len dflt st' by simp
qed

lemmas example_defs =
  pass_compute_switching_tables_def pass_assign_mac_addresses_def example_state_def
  example_nodes_def Let_def get_mac_address_def reduce_concat_def build_switch_table_def

text \<open>
  On the example, three addresses are issued. The switch 3 reaches the address 2 only;
  its table has three entries, and the entry of address 0 is its uplink port 1.
\<close>

theorem switch_table_size_and_default_uplink_witness:
  "\<exists>st'. pass_compute_switching_tables [1, 2, 0, 4, 3] [0, 3]
            (pass_assign_mac_addresses [1, 2, 0, 4, 3] example_state) = Inr st'
      \<and> next_mac_alloc (pass_assign_mac_addresses [1, 2, 0, 4, 3] example_state) = 3
      \<and> downlinks (nodes st' 3) = [4] \<and> downlinkmacs (nodes st' 4) = [2]
      \<and> length (switch_table (nodes st' 3)) = 3
      \<and> switch_table (nodes st' 3) ! 0 = 1"
proof -
  let ?st = "pass_assign_mac_addresses [1, 2, 0, 4, 3] example_state"
  have "\<exists>st'. pass_compute_switching_tables [1, 2, 0, 4, 3] [0, 3] ?st = Inr st'"
    by (simp add: example_defs)
  then obtain st' where run: "pass_compute_switching_tables [1, 2, 0, 4, 3] [0, 3] ?st = Inr st'" ..
  have n: "next_mac_alloc ?st = 3"
    by (simp add: example_defs)
  have dl: "downlinks (nodes st' 3) = [4]" "downlinkmacs (nodes st' 4) = [2]"
    using run by (auto simp: example_defs)
  have "(3::nat) \<in> set [0, 3]" by simp
  from switch_table_size_and_default_uplink [OF run this] n dl
  have "length (switch_table (nodes st' 3)) = 3 \<and> switch_table (nodes st' 3) ! 0 = 1"
    by simp
  with run n dl show ?thesis by blast
qed

text \<open>
  Claim C9. The switching-table pass run before the address-assignment pass of the same
  object fails at entry with an assertion error: unless \<open>pass_assign_mac_addresses\<close> is
  among the passes used, the pass returns no state at all.
\<close>

theorem switching_tables_require_mac_assignment:
  "''pass_assign_mac_addresses'' \<notin> set (passes_used st) \<Longrightarrow>
     pass_compute_switching_tables nodes_dfs_order switches_dfs_order st = Inl (AssertionError [])"
  by (simp add: pass_compute_switching_tables_def)

theorem switching_tables_require_mac_assignment_witness:
  "''pass_assign_mac_addresses'' \<notin> set (passes_used example_state) \<and>
   pass_compute_switching_tables [1, 2, 0, 4, 3] [0, 3] example_state = Inl (AssertionError [])"
proof -
  have h: "''pass_assign_mac_addresses'' \<notin> set (passes_used example_state)"
    by (simp add: example_state_def)
  from switching_tables_require_mac_assignment [OF h] h show ?thesis by simp
qed

section \<open>Properties of the no-network packing pass\<close>

lemma pack_Nil [simp]: "pack hs [] = hs"
  by (induction hs) auto














section \<open>Properties of the simple networked mapping pass\<close>























section \<open>Properties of the single-host mapping\<close>

text \<open>
  Whatever the topology and the run farm, the single-host mapping puts no machine on any
  host: the loop that would add the machines runs over an iterator that the test before
  it has drained.
\<close>

lemma one_fpga_switch_slots:
  "one_fpga_switch ns (hs, d) switch = Inr (hs', d') \<Longrightarrow>
     map fpga_slots hs' = map fpga_slots hs \<and> d' = Some []"
  by (cases hs)
     (auto simp: one_fpga_switch_def drain_def Let_def add_switch_def
           split: if_splits option.splits)

lemma one_fpga_loop_slots:
  "one_fpga_loop ns switches (hs, d) = Inr (hs', d') \<Longrightarrow> map fpga_slots hs' = map fpga_slots hs"
proof (induction switches arbitrary: hs d)
  case Nil
  then show ?case by simp
next
  case (Cons sw rest)
  then show ?case
    by (cases "one_fpga_switch ns (hs, d) sw") (auto dest!: one_fpga_switch_slots) 
qed

lemma one_fpga_never_assigns_machines:
  "mapping_use_one_fpga_node ns switches run_farm_nodes = Inr fpga_nodes' \<Longrightarrow>
     map fpga_slots fpga_nodes' = map fpga_slots (filter is_fpga_node run_farm_nodes)"
  by (auto simp: mapping_use_one_fpga_node_def Let_def split: sum.splits dest: one_fpga_loop_slots)


section \<open>Properties of the monitor loop\<close>


lemma execute_fails:
  "\<not> list_all (reachable w) hosts \<Longrightarrow>
     execute w t hosts tr = (tr @ [Execute t hosts], Some NetworkError)"
  by (simp add: execute_def)








text \<open>
  When two hosts report the same job name, the report of the later host replaces that of
  the earlier one in the merged dictionary; hence the condition on the job names below.
\<close>

lemma global_status_same_name:
  "global_status [(''A'', \<lparr>switches_of = [], sims_of = [(''job0'', True)]\<rparr>),
                  (''B'', \<lparr>switches_of = [], sims_of = [(''job0'', False)]\<rparr>)] = [False]"
  by (simp add: global_status_def dict_update_def)












lemma execute_trace: "fst (execute w t hosts tr) = tr @ [Execute t hosts]"
  by (simp add: execute_def)






















section \<open>Properties of the dispatch passes and of the post-run hook\<close>

text \<open>
  With a host out of reach, the setup pass and the boot pass end at their liveness check,
  before any of their own work has been dispatched; the kill pass has no such check and
  ends at its first dispatch.
\<close>

lemma infrasetup_liveness_first:
  "\<not> list_all (reachable w) ips \<Longrightarrow>
     infrasetup_passes w m ips tr
       = (tr @ [Bind m, BuildDrivers, BuildSwitches, Execute instance_liveness ips],
          Some NetworkError)"
  by (simp add: infrasetup_passes_def execute_def)

lemma boot_liveness_first:
  "\<not> list_all (reachable w) ips \<Longrightarrow>
     boot_simulation_passes w m skip ips tr
       = ((if skip then tr else tr @ [Bind m]) @ [Execute instance_liveness ips],
          Some NetworkError)"
  by (simp add: boot_simulation_passes_def execute_def)


lemma kill_without_liveness:
  "\<not> list_all (reachable w) ips \<Longrightarrow>
     kill_simulation_passes w m d ips tr
       = Some (tr @ [Bind m, Execute kill_switch_wrapper ips], Some NetworkError)"
  by (simp add: kill_simulation_passes_def execute_def)

text \<open>
  Claim C7 says that each of setup, boot and kill checks the liveness of every host
  before any per-host work. On the fleet of the hosts A and B with B out of reach, the
  setup pass and the boot pass end with the liveness check as their only dispatch; the
  kill pass dispatches \<open>kill_switch_wrapper\<close> to the fleet, with no liveness check
  before it, and fails there.
\<close>

theorem kill_pass_without_liveness_check:
  "\<not> reachable example_world_B_down ''B'' \<and>
   infrasetup_passes example_world_B_down False [''A'', ''B''] []
     = ([Bind False, BuildDrivers, BuildSwitches, Execute instance_liveness [''A'', ''B'']],
        Some NetworkError) \<and>
   boot_simulation_passes example_world_B_down False False [''A'', ''B''] []
     = ([Bind False, Execute instance_liveness [''A'', ''B'']], Some NetworkError) \<and>
   kill_simulation_passes example_world_B_down False True [''A'', ''B''] []
     = Some ([Bind False, Execute kill_switch_wrapper [''A'', ''B'']], Some NetworkError)"
  by (simp add: example_world_B_down_def example_world_def infrasetup_passes_def
        boot_simulation_passes_def kill_simulation_passes_def execute_def)









end
